theory Spec2Isabelle
  imports Complex_Main "HOL-Library.Log_Nat"
begin

section \<open>JavaScript numbers\<close>

text \<open>
  A JavaScript Number is an IEEE-754 double. The finite doubles are represented by the
  rational they denote; the two zeros are one value \<open>Fin 0\<close> (the program never divides
  by a computed zero other than in \<open>0 / 0\<close>, and both zeros print as \<open>0\<close>).
\<close>

datatype jsnum = Fin rat | NaN | PInf | NInf

text \<open>\<open>ilog b x\<close> is the integer \<open>e\<close> with \<open>b ^ e \<le> x < b ^ (e + 1)\<close>, for \<open>x > 0\<close>.\<close>

definition ilog :: "nat \<Rightarrow> rat \<Rightarrow> int" where
  "ilog b x =
     (let (p, q) = quotient_of x;
          d = int (floorlog b (nat p)) - int (floorlog b (nat q))
      in if of_nat b powi d \<le> x then d else d - 1)"

definition roundTiesToEven :: "rat \<Rightarrow> int" where
  "roundTiesToEven x =
     (let f = \<lfloor>x\<rfloor>; d = x - of_int f
      in if d < 1 / 2 then f else if 1 / 2 < d then f + 1 else if even f then f else f + 1)"

text \<open>
  Rounding of an exact result to the nearest double, ties to even: 53 bits of
  significand, gradual underflow below \<open>2 ^ (-1022)\<close>, overflow to infinity.
\<close>

definition toDouble :: "rat \<Rightarrow> jsnum" where
  "toDouble x =
     (if x = 0 then Fin 0
      else let a = \<bar>x\<bar>;
               e = max (ilog 2 a) (- 1022);
               q = 2 powi (e - 52);
               y = of_int (roundTiesToEven (a / q)) * q
           in if 2 powi 1024 \<le> y then (if 0 < x then PInf else NInf)
              else Fin (if 0 < x then y else - y))"

fun fneg :: "jsnum \<Rightarrow> jsnum" where
  "fneg (Fin a) = Fin (- a)"
| "fneg NaN = NaN"
| "fneg PInf = NInf"
| "fneg NInf = PInf"

fun fadd :: "jsnum \<Rightarrow> jsnum \<Rightarrow> jsnum" where
  "fadd NaN _ = NaN"
| "fadd _ NaN = NaN"
| "fadd (Fin a) (Fin b) = toDouble (a + b)"
| "fadd PInf NInf = NaN"
| "fadd NInf PInf = NaN"
| "fadd PInf _ = PInf"
| "fadd NInf _ = NInf"
| "fadd (Fin a) y = y"

definition fsub :: "jsnum \<Rightarrow> jsnum \<Rightarrow> jsnum" where
  "fsub x y = fadd x (fneg y)"

text \<open>The sign of a number, with zero counted as positive.\<close>

fun nonneg :: "jsnum \<Rightarrow> bool" where
  "nonneg (Fin a) = (0 \<le> a)"
| "nonneg NaN = True"
| "nonneg PInf = True"
| "nonneg NInf = False"

fun isInf :: "jsnum \<Rightarrow> bool" where
  "isInf PInf = True"
| "isInf NInf = True"
| "isInf _ = False"

definition signedInf :: "bool \<Rightarrow> jsnum" where
  "signedInf pos = (if pos then PInf else NInf)"

fun fmul :: "jsnum \<Rightarrow> jsnum \<Rightarrow> jsnum" where
  "fmul NaN _ = NaN"
| "fmul _ NaN = NaN"
| "fmul (Fin a) (Fin b) = toDouble (a * b)"
| "fmul x y =
     (if x = Fin 0 \<or> y = Fin 0 then NaN else signedInf (nonneg x = nonneg y))"

fun fdiv :: "jsnum \<Rightarrow> jsnum \<Rightarrow> jsnum" where
  "fdiv NaN _ = NaN"
| "fdiv _ NaN = NaN"
| "fdiv (Fin a) (Fin b) =
     (if b = 0 then (if a = 0 then NaN else signedInf (0 < a)) else toDouble (a / b))"
| "fdiv (Fin a) y = Fin 0"
| "fdiv x (Fin b) = signedInf (nonneg x = (0 \<le> b))"
| "fdiv x y = NaN"

fun flt :: "jsnum \<Rightarrow> jsnum \<Rightarrow> bool" where
  "flt NaN _ = False"
| "flt _ NaN = False"
| "flt (Fin a) (Fin b) = (a < b)"
| "flt NInf y = (y \<noteq> NInf)"
| "flt x PInf = (x \<noteq> PInf)"
| "flt x y = False"

text \<open>\<open>Math.round\<close>: the nearest integer, a tie going towards \<open>+\<infinity>\<close>.\<close>

fun mathRound :: "jsnum \<Rightarrow> jsnum" where
  "mathRound (Fin a) = Fin (of_int \<lfloor>a + 1 / 2\<rfloor>)"
| "mathRound x = x"

section \<open>Strings and numbers\<close>

text \<open>
  Strings are lists of 8-bit code units. \<open>natToDec\<close> is the decimal numeral of a
  natural number, as a template literal prints an array index.
\<close>

definition digitChar :: "nat \<Rightarrow> char" where
  "digitChar d = ''0123456789'' ! d"

fun natToDec :: "nat \<Rightarrow> string" where
  "natToDec n =
     (if n < 10 then [digitChar n] else natToDec (n div 10) @ [digitChar (n mod 10)])"

declare natToDec.simps [simp del]

text \<open>\<open>String.prototype.split\<close> with a one-character separator.\<close>

fun splitOn :: "char \<Rightarrow> string \<Rightarrow> string list" where
  "splitOn c [] = [[]]"
| "splitOn c (x # xs) =
     (if x = c then [] # splitOn c xs
      else (case splitOn c xs of [] \<Rightarrow> [[x]] | p # ps \<Rightarrow> (x # p) # ps))"

text \<open>\<open>String.prototype.startsWith\<close>.\<close>

definition startsWith :: "string \<Rightarrow> string \<Rightarrow> bool" where
  "startsWith s p = (take (length p) s = p)"

text \<open>White space and line terminators among the 8-bit code units.\<close>

definition isWhite :: "char \<Rightarrow> bool" where
  "isWhite c = (c \<in> set [CHR 0x09, CHR 0x0A, CHR 0x0B, CHR 0x0C, CHR 0x0D, CHR 0x20, CHR 0xA0])"

definition trim :: "string \<Rightarrow> string" where
  "trim s = rev (dropWhile isWhite (rev (dropWhile isWhite s)))"

definition isDigit :: "char \<Rightarrow> bool" where
  "isDigit c = (c \<in> set ''0123456789'')"

fun indexOf :: "'a \<Rightarrow> 'a list \<Rightarrow> nat option" where
  "indexOf c [] = None"
| "indexOf c (x # xs) = (if x = c then Some 0 else map_option Suc (indexOf c xs))"

definition digitValue :: "char \<Rightarrow> nat option" where
  "digitValue c =
     (case indexOf c ''0123456789abcdef'' of
        Some d \<Rightarrow> Some d
      | None \<Rightarrow> map_option (\<lambda>d. d + 10) (indexOf c ''ABCDEF''))"

fun digitsValue :: "nat \<Rightarrow> nat \<Rightarrow> string \<Rightarrow> nat option" where
  "digitsValue radix acc [] = Some acc"
| "digitsValue radix acc (c # cs) =
     (case digitValue c of
        None \<Rightarrow> None
      | Some d \<Rightarrow> if d < radix then digitsValue radix (acc * radix + d) cs else None)"

definition parseDigits :: "nat \<Rightarrow> string \<Rightarrow> nat option" where
  "parseDigits radix s = (if s = [] then None else digitsValue radix 0 s)"

definition parseExponent :: "string \<Rightarrow> int option" where
  "parseExponent r =
     (if r = [] then Some 0
      else if hd r = CHR ''e'' \<or> hd r = CHR ''E'' then
        (if startsWith (tl r) ''+'' then map_option int (parseDigits 10 (tl (tl r)))
         else if startsWith (tl r) ''-'' then
           map_option (\<lambda>n. - int n) (parseDigits 10 (tl (tl r)))
         else map_option int (parseDigits 10 (tl r)))
      else None)"

text \<open>An unsigned decimal literal: digits, an optional fraction, an optional exponent.\<close>

definition parseDecimal :: "string \<Rightarrow> rat option" where
  "parseDecimal s =
     (let ip = takeWhile isDigit s;
          r1 = dropWhile isDigit s;
          hasDot = startsWith r1 ''.'';
          fp = (if hasDot then takeWhile isDigit (tl r1) else []);
          r2 = (if hasDot then dropWhile isDigit (tl r1) else r1)
      in if ip = [] \<and> fp = [] then None
         else (case parseExponent r2 of
                 None \<Rightarrow> None
               | Some ex \<Rightarrow>
                   (case digitsValue 10 0 (ip @ fp) of
                      None \<Rightarrow> None
                    | Some m \<Rightarrow> Some (of_nat m * 10 powi (ex - int (length fp))))))"

definition parseUnsigned :: "string \<Rightarrow> jsnum" where
  "parseUnsigned s =
     (if s = ''Infinity'' then PInf
      else (case parseDecimal s of None \<Rightarrow> NaN | Some x \<Rightarrow> toDouble x))"

definition parseRadix :: "nat \<Rightarrow> string \<Rightarrow> jsnum" where
  "parseRadix radix s =
     (case parseDigits radix s of None \<Rightarrow> NaN | Some n \<Rightarrow> toDouble (of_nat n))"

text \<open>
  \<open>Number(string)\<close>: surrounding white space is dropped, the empty string is \<open>0\<close>,
  then a hexadecimal, octal or binary integer, or a signed decimal literal or
  \<open>Infinity\<close>; anything else is \<open>NaN\<close>.
\<close>

definition toNumber :: "string \<Rightarrow> jsnum" where
  "toNumber str =
     (let s = trim str
      in if s = [] then Fin 0
         else if startsWith s ''0x'' \<or> startsWith s ''0X'' then parseRadix 16 (drop 2 s)
         else if startsWith s ''0o'' \<or> startsWith s ''0O'' then parseRadix 8 (drop 2 s)
         else if startsWith s ''0b'' \<or> startsWith s ''0B'' then parseRadix 2 (drop 2 s)
         else if startsWith s ''+'' then parseUnsigned (tl s)
         else if startsWith s ''-'' then fneg (parseUnsigned (tl s))
         else parseUnsigned s)"

text \<open>
  \<open>Number::toString\<close>: the shortest decimal digit string \<open>s\<close> (of \<open>k\<close> digits, scaled
  by \<open>10 ^ (n - k)\<close>) that reads back as the same double.
\<close>

definition digitCandidate :: "rat \<Rightarrow> int \<Rightarrow> nat \<Rightarrow> (nat \<times> int) option" where
  "digitCandidate x n k =
     (let sc = 10 powi (n - int k);
          lo = nat \<lfloor>x / sc\<rfloor>;
          hi = lo + 1;
          okLo = (toDouble (of_nat lo * sc) = Fin x);
          okHi = (toDouble (of_nat hi * sc) = Fin x);
          useLo = (okLo \<and> (\<not> okHi \<or> x - of_nat lo * sc \<le> of_nat hi * sc - x))
      in if useLo then Some (lo, n)
         else if okHi then (if hi = 10 ^ k then Some (10 ^ (k - 1), n + 1) else Some (hi, n))
         else None)"

fun shortestDigits :: "rat \<Rightarrow> int \<Rightarrow> nat list \<Rightarrow> (nat \<times> int)" where
  "shortestDigits x n [] = (nat \<lfloor>x / 10 powi (n - 17)\<rfloor>, n)"
| "shortestDigits x n (k # ks) =
     (case digitCandidate x n k of Some r \<Rightarrow> r | None \<Rightarrow> shortestDigits x n ks)"

definition positiveToString :: "rat \<Rightarrow> string" where
  "positiveToString x =
     (let (s, n) = shortestDigits x (ilog 10 x + 1) [1..<18];
          ds = natToDec s;
          k = int (length ds)
      in if k \<le> n \<and> n \<le> 21 then ds @ replicate (nat (n - k)) CHR ''0''
         else if 0 < n \<and> n \<le> 21 then take (nat n) ds @ ''.'' @ drop (nat n) ds
         else if - 6 < n \<and> n \<le> 0 then ''0.'' @ replicate (nat (- n)) CHR ''0'' @ ds
         else (if k = 1 then ds else take 1 ds @ ''.'' @ drop 1 ds)
              @ ''e'' @ (if 0 \<le> n - 1 then ''+'' else ''-'') @ natToDec (nat \<bar>n - 1\<bar>))"

fun numToString :: "jsnum \<Rightarrow> string" where
  "numToString NaN = ''NaN''"
| "numToString PInf = ''Infinity''"
| "numToString NInf = ''-Infinity''"
| "numToString (Fin x) =
     (if x = 0 then ''0''
      else if x < 0 then ''-'' @ positiveToString (- x)
      else positiveToString x)"

section \<open>Color scale generation\<close>

text \<open>
  \<open>const [r, g, b] = baseColor.split(',').map(Number)\<close>: an element past the end of
  the array is \<open>undefined\<close>, here \<open>None\<close>. In arithmetic \<open>undefined\<close> is \<open>NaN\<close>; in a
  template literal it prints as \<open>undefined\<close>.
\<close>

definition element :: "'a list \<Rightarrow> nat \<Rightarrow> 'a option" where
  "element xs i = (if i < length xs then Some (xs ! i) else None)"

fun operand :: "jsnum option \<Rightarrow> jsnum" where
  "operand None = NaN"
| "operand (Some x) = x"

fun template :: "jsnum option \<Rightarrow> string" where
  "template None = ''undefined''"
| "template (Some x) = numToString x"

definition rgbString :: "string \<Rightarrow> string \<Rightarrow> string \<Rightarrow> string" where
  "rgbString a b c = a @ '','' @ b @ '','' @ c"

definition ofNat :: "nat \<Rightarrow> jsnum" where
  "ofNat n = toDouble (of_nat n)"

text \<open>The channel expressions of the 4-point branch.\<close>

definition tintChannel :: "jsnum \<Rightarrow> jsnum \<Rightarrow> jsnum" where
  "tintChannel tint c = mathRound (fadd c (fmul (fsub (Fin 255) c) tint))"

definition shadeChannel :: "jsnum \<Rightarrow> jsnum \<Rightarrow> jsnum" where
  "shadeChannel shade c = mathRound (fmul c shade)"

text \<open>The channel expressions of the general branch, for an interior index.\<close>

definition interpolateChannel :: "jsnum \<Rightarrow> jsnum \<Rightarrow> jsnum" where
  "interpolateChannel t c =
     (let midPoint = toDouble 0.5
      in if flt t midPoint then
           (let factor = fdiv t midPoint
            in mathRound (fadd (Fin 255) (fmul (fsub c (Fin 255)) factor)))
         else
           (let factor = fdiv (fsub t midPoint) (fsub (Fin 1) midPoint)
            in mathRound (fmul c (fsub (Fin 1) factor))))"

definition scalePoint :: "jsnum \<Rightarrow> jsnum \<Rightarrow> jsnum \<Rightarrow> nat \<Rightarrow> nat \<Rightarrow> string" where
  "scalePoint r g b points i =
     (let t = fdiv (ofNat i) (fsub (ofNat points) (Fin 1))
      in if i = 0 then
           rgbString (numToString (Fin 255)) (numToString (Fin 255)) (numToString (Fin 255))
         else if ofNat i = fsub (ofNat points) (Fin 1) then
           rgbString (numToString (Fin 0)) (numToString (Fin 0)) (numToString (Fin 0))
         else
           rgbString (numToString (interpolateChannel t r))
             (numToString (interpolateChannel t g))
             (numToString (interpolateChannel t b)))"

definition generateColorScale :: "string \<Rightarrow> nat \<Rightarrow> string list" where
  "generateColorScale baseColor points =
     (let ns = map toNumber (splitOn CHR '','' baseColor);
          r = element ns 0; g = element ns 1; b = element ns 2
      in if points = 4 then
           (let tint = toDouble 0.25; shade2 = toDouble 0.80; shade3 = toDouble 0.65
            in [rgbString (numToString (tintChannel tint (operand r)))
                  (numToString (tintChannel tint (operand g)))
                  (numToString (tintChannel tint (operand b))),
                rgbString (template r) (template g) (template b),
                rgbString (numToString (shadeChannel shade2 (operand r)))
                  (numToString (shadeChannel shade2 (operand g)))
                  (numToString (shadeChannel shade2 (operand b))),
                rgbString (numToString (shadeChannel shade3 (operand r)))
                  (numToString (shadeChannel shade3 (operand g)))
                  (numToString (shadeChannel shade3 (operand b)))])
         else map (scalePoint (operand r) (operand g) (operand b) points) [0..<points])"

section \<open>Theme documents\<close>

text \<open>
  A parsed JSON value. The entries of an object are listed in the order in which
  \<open>Object.entries\<close> enumerates them. \<open>JUndefined\<close> stands for an absent argument.
\<close>

datatype jsval =
    JUndefined
  | JNull
  | JBool bool
  | JNum rat
  | JStr string
  | JArr "jsval list"
  | JObj "(string \<times> jsval) list"

fun truthy :: "jsval \<Rightarrow> bool" where
  "truthy JUndefined = False"
| "truthy JNull = False"
| "truthy (JBool b) = b"
| "truthy (JNum x) = (x \<noteq> 0)"
| "truthy (JStr s) = (s \<noteq> [])"
| "truthy (JArr xs) = True"
| "truthy (JObj kvs) = True"

text \<open>\<open>typeof v === 'object'\<close> holds of \<open>null\<close>, arrays and objects.\<close>

fun isObjectType :: "jsval \<Rightarrow> bool" where
  "isObjectType JNull = True"
| "isObjectType (JArr xs) = True"
| "isObjectType (JObj kvs) = True"
| "isObjectType v = False"

subsection \<open>resolveValue\<close>

fun resolveValue :: "jsval \<Rightarrow> jsval" where
  "resolveValue (JStr s) = (if startsWith s ''--'' then JStr (''var('' @ s @ '')'') else JStr s)"
| "resolveValue v = v"

subsection \<open>merge and generateScales\<close>

text \<open>
  A theme document handed to \<open>merge\<close> is an object whose \<open>base\<close> and \<open>properties\<close>
  sections, where present, are objects; a section is a map from keys to values.
\<close>

type_synonym obj = "string \<rightharpoonup> jsval"

record theme =
  base :: "obj option"
  properties :: "obj option"

definition neutralColors :: "string list" where
  "neutralColors = [''--now-color--neutral'']"

definition fourPointColors :: "string list" where
  "fourPointColors =
     [''--now-color--primary'',
      ''--now-color--secondary'',
      ''--now-color_selection--primary'',
      ''--now-color_selection--secondary'',
      ''--now-color--interactive'',
      ''--now-color--link'',
      ''--now-color--focus'',
      ''--now-color_alert--critical'',
      ''--now-color_alert--high'',
      ''--now-color_alert--warning'',
      ''--now-color_alert--moderate'',
      ''--now-color_alert--info'',
      ''--now-color_alert--positive'',
      ''--now-color_alert--low'']"

text \<open>The key \<open>`${colorName}-${index}`\<close>.\<close>

definition scaleKey :: "string \<Rightarrow> nat \<Rightarrow> string" where
  "scaleKey colorName index = colorName @ ''-'' @ natToDec index"

text \<open>
  \<open>scale.forEach((value, index) => { base[key] = value; generatedCount++ })\<close>, on the
  state made of the base section and the counter.
\<close>

fun storeScale :: "string \<Rightarrow> nat \<Rightarrow> string list \<Rightarrow> obj \<times> nat \<Rightarrow> obj \<times> nat" where
  "storeScale colorName index [] st = st"
| "storeScale colorName index (value # rest) st =
     storeScale colorName (Suc index) rest
       ((fst st)(scaleKey colorName index \<mapsto> JStr value), Suc (snd st))"

text \<open>
  The body of the two \<open>forEach\<close> loops over the color names: the base value is read
  from the section as it is at that moment, and expanded when it is a non-empty string.
\<close>

definition expandColor :: "nat \<Rightarrow> obj \<times> nat \<Rightarrow> string \<Rightarrow> obj \<times> nat" where
  "expandColor points st colorName =
     (case fst st colorName of
        Some (JStr baseValue) \<Rightarrow>
          if baseValue \<noteq> [] then storeScale colorName 0 (generateColorScale baseValue points) st
          else st
      | _ \<Rightarrow> st)"

text \<open>
  \<open>generateScales\<close> updates the document in place and logs the number of generated
  entries; the model returns the updated document and the logged count (\<open>None\<close> when
  the function returns before logging).
\<close>

definition generateScales :: "theme \<Rightarrow> theme \<times> nat option" where
  "generateScales themeData =
     (case base themeData of
        None \<Rightarrow> (themeData, None)
      | Some b \<Rightarrow>
          (let st1 = foldl (expandColor 22) (b, 0) neutralColors;
               st2 = foldl (expandColor 4) st1 fourPointColors
           in (themeData\<lparr>base := Some (fst st2)\<rparr>, Some (snd st2))))"

text \<open>\<open>if (source) Object.assign(target, source)\<close>.\<close>

definition assign :: "obj \<Rightarrow> obj option \<Rightarrow> obj" where
  "assign target source = (case source of None \<Rightarrow> target | Some src \<Rightarrow> target ++ src)"

text \<open>The accumulator \<open>merged\<close> after the \<open>forEach\<close> over the documents.\<close>

definition mergeSections :: "theme list \<Rightarrow> obj \<times> obj" where
  "mergeSections themes =
     foldl (\<lambda>merged theme. (assign (fst merged) (base theme), assign (snd merged) (properties theme)))
       (Map.empty, Map.empty) themes"

definition merge :: "theme list \<Rightarrow> theme" where
  "merge themes =
     (let merged = mergeSections themes
      in fst (generateScales \<lparr>base = Some (fst merged), properties = Some (snd merged)\<rparr>))"

subsection \<open>validate\<close>

record report =
  valid :: bool
  errors :: "string list"

text \<open>Reading a property of a value that passed the object test.\<close>

definition getProperty :: "jsval \<Rightarrow> string \<Rightarrow> jsval" where
  "getProperty v name =
     (case v of
        JObj kvs \<Rightarrow> (case map_of kvs name of Some x \<Rightarrow> x | None \<Rightarrow> JUndefined)
      | _ \<Rightarrow> JUndefined)"

text \<open>\<open>Object.entries\<close> of a truthy value.\<close>

fun entries :: "jsval \<Rightarrow> (string \<times> jsval) list" where
  "entries (JObj kvs) = kvs"
| "entries (JArr xs) = zip (map natToDec [0..<length xs]) xs"
| "entries (JStr s) = zip (map natToDec [0..<length s]) (map (\<lambda>c. JStr [c]) s)"
| "entries v = []"

definition quoted :: "string \<Rightarrow> string" where
  "quoted s = [CHR 0x22] @ s @ [CHR 0x22]"

definition baseKeyErrors :: "jsval \<Rightarrow> string list" where
  "baseKeyErrors b =
     concat (map (\<lambda>(key, value).
        if \<not> startsWith key ''--'' \<and> key \<noteq> ''isDark''
        then [''Base key '' @ quoted key @ '' should start with --''] else []) (entries b))"

definition propertyKeyErrors :: "jsval \<Rightarrow> string list" where
  "propertyKeyErrors p =
     concat (map (\<lambda>(key, value).
        if \<not> startsWith key ''--''
        then [''Property key '' @ quoted key @ '' should start with --''] else []) (entries p))"

definition validate :: "jsval \<Rightarrow> report" where
  "validate themeData =
     (if \<not> truthy themeData \<or> \<not> isObjectType themeData then
        \<lparr>valid = False, errors = [''Theme data must be an object'']\<rparr>
      else
        (let b = getProperty themeData ''base'';
             p = getProperty themeData ''properties'';
             errors1 = (if \<not> truthy b \<and> \<not> truthy p
                        then [''Theme must have either '' @ quoted ''base'' @ '' or ''
                                @ quoted ''properties'' @ '' section'']
                        else []);
             errors2 = errors1 @ (if truthy b then baseKeyErrors b else []);
             errors3 = errors2 @ (if truthy p then propertyKeyErrors p else [])
         in \<lparr>valid = (length errors3 = 0), errors = errors3\<rparr>))"

section \<open>The loader\<close>





section \<open>Notions used by the statements\<close>

text \<open>\<open>typeof v === 'string'\<close>.\<close>

fun isString :: "jsval \<Rightarrow> bool" where
  "isString (JStr s) = True"
| "isString v = False"

text \<open>The keys that \<open>validate\<close> reports, and the keys of a section that is present.\<close>

definition badBaseKey :: "string \<Rightarrow> bool" where
  "badBaseKey key = (take 2 key \<noteq> ''--'' \<and> key \<noteq> ''isDark'')"

definition badPropertyKey :: "string \<Rightarrow> bool" where
  "badPropertyKey key = (take 2 key \<noteq> ''--'')"

definition sectionErrors :: "jsval \<Rightarrow> string list" where
  "sectionErrors d =
     (if \<not> truthy (getProperty d ''base'') \<and> \<not> truthy (getProperty d ''properties'')
      then [''Theme must have either '' @ quoted ''base'' @ '' or '' @ quoted ''properties''
              @ '' section'']
      else [])"

definition presentKeys :: "jsval \<Rightarrow> string \<Rightarrow> string list" where
  "presentKeys d name =
     (if truthy (getProperty d name) then map fst (entries (getProperty d name)) else [])"

text \<open>
  The canonical string of a color triple with natural channels, \<open>r,g,b\<close> in decimal.
\<close>

definition colorTriple :: "nat \<Rightarrow> nat \<Rightarrow> nat \<Rightarrow> string" where
  "colorTriple r g b = rgbString (natToDec r) (natToDec g) (natToDec b)"


text \<open>A section that is absent contributes no entries.\<close>

definition sectionOf :: "obj option \<Rightarrow> obj" where
  "sectionOf s = (case s of None \<Rightarrow> Map.empty | Some m \<Rightarrow> m)"

text \<open>The base value of a color name is expanded when it is a non-empty string.\<close>

fun expandable :: "jsval option \<Rightarrow> bool" where
  "expandable (Some (JStr s)) = (s \<noteq> [])"
| "expandable v = False"

text \<open>The entries generated for one color name, and for a list of color names.\<close>

definition scaleOf :: "nat \<Rightarrow> string \<Rightarrow> jsval option \<Rightarrow> obj" where
  "scaleOf n c v =
     (case v of
        Some (JStr s) \<Rightarrow>
          if s \<noteq> [] then
            map_of (zip (map (scaleKey c) [0..<n]) (map JStr (generateColorScale s n)))
          else Map.empty
      | _ \<Rightarrow> Map.empty)"

definition scalesOf :: "nat \<Rightarrow> obj \<Rightarrow> string list \<Rightarrow> obj" where
  "scalesOf n b cs = foldl (\<lambda>g c. g ++ scaleOf n c (b c)) Map.empty cs"

definition generated :: "obj \<Rightarrow> obj" where
  "generated b = scalesOf 22 b neutralColors ++ scalesOf 4 b fourPointColors"


text \<open>The number of entries that \<open>generateScales\<close> reports for a base section.\<close>

definition expandedCount :: "obj \<Rightarrow> nat" where
  "expandedCount b =
     22 * length (filter (\<lambda>c. expandable (b c)) neutralColors)
     + 4 * length (filter (\<lambda>c. expandable (b c)) fourPointColors)"

text \<open>
  The channel of an interior point of the ramp in the words of the specification, in
  exact rational arithmetic: with \<open>t = i / (points - 1)\<close>, the blend from white to
  the base below one half and from the base to black from one half on.
\<close>

definition rampChannel :: "nat \<Rightarrow> nat \<Rightarrow> nat \<Rightarrow> int" where
  "rampChannel points i c =
     (let t = of_nat i / of_nat (points - 1) :: rat
      in if t < 0.5 then round (255 + (of_nat c - 255) * (t / 0.5))
         else round (of_nat c * (1 - (t - 0.5) / 0.5)))"

section \<open>Properties\<close>

lemma startsWith_dashes: "startsWith s ''--'' = (take 2 s = ''--'')"
  by (simp add: startsWith_def numeral_2_eq_2)

text \<open>
  Claim C10. For every base string, well-formed or not, and every number of points,
  \<open>generateColorScale\<close> returns a sequence of exactly that many entries: four in the
  4-point branch, one per index in the general branch.
\<close>

theorem generateColorScale_length:
  "length (generateColorScale baseColor points) = points"
  by (simp add: generateColorScale_def Let_def)

text \<open>
  Claim C8. \<open>resolveValue\<close> returns a value that is not a string unchanged, wraps a
  string that begins with the two characters \<open>--\<close> as \<open>var(name)\<close> around that exact
  name, and returns every other string unchanged; so for \<open>--now-color--neutral-0\<close>,
  \<open>16px\<close> and the number \<open>42\<close>.
\<close>

theorem resolveValue_spec:
  "(\<not> isString v \<longrightarrow> resolveValue v = v)
   \<and> (take 2 s = ''--'' \<longrightarrow> resolveValue (JStr s) = JStr (''var('' @ s @ '')''))
   \<and> (take 2 s \<noteq> ''--'' \<longrightarrow> resolveValue (JStr s) = JStr s)
   \<and> resolveValue (JStr ''--now-color--neutral-0'') = JStr ''var(--now-color--neutral-0)''
   \<and> resolveValue (JStr ''16px'') = JStr ''16px''
   \<and> resolveValue (JNum 42) = JNum 42"
  by (cases v) (simp_all add: startsWith_dashes)

theorem resolveValue_spec_witness:
  "\<not> isString (JBool True) \<and> resolveValue (JBool True) = JBool True
   \<and> take 2 ''--now-font'' = ''--'' \<and> resolveValue (JStr ''--now-font'') = JStr ''var(--now-font)''
   \<and> take 2 ''1.5rem'' \<noteq> ''--'' \<and> resolveValue (JStr ''1.5rem'') = JStr ''1.5rem''"
  using resolveValue_spec [of "JBool True" "''--now-font''"] resolveValue_spec [of "JBool True" "''1.5rem''"]
  by simp

lemma baseKeyErrors_filter:
  "baseKeyErrors b =
     map (\<lambda>key. ''Base key '' @ quoted key @ '' should start with --'')
       (filter badBaseKey (map fst (entries b)))"
proof -
  have "concat (map (\<lambda>(key, value).
        if \<not> startsWith key ''--'' \<and> key \<noteq> ''isDark''
        then [''Base key '' @ quoted key @ '' should start with --''] else []) kvs)
      = map (\<lambda>key. ''Base key '' @ quoted key @ '' should start with --'')
       (filter badBaseKey (map fst kvs))" for kvs :: "(string \<times> jsval) list"
    by (induction kvs) (auto simp: badBaseKey_def startsWith_dashes)
  then show ?thesis by (simp add: baseKeyErrors_def)
qed

lemma propertyKeyErrors_filter:
  "propertyKeyErrors p =
     map (\<lambda>key. ''Property key '' @ quoted key @ '' should start with --'')
       (filter badPropertyKey (map fst (entries p)))"
proof -
  have "concat (map (\<lambda>(key, value).
        if \<not> startsWith key ''--''
        then [''Property key '' @ quoted key @ '' should start with --''] else []) kvs)
      = map (\<lambda>key. ''Property key '' @ quoted key @ '' should start with --'')
       (filter badPropertyKey (map fst kvs))" for kvs :: "(string \<times> jsval) list"
    by (induction kvs) (auto simp: badPropertyKey_def startsWith_dashes)
  then show ?thesis by (simp add: propertyKeyErrors_def)
qed

lemma validate_object:
  assumes "truthy d" "isObjectType d"
  shows "errors (validate d) =
           sectionErrors d
           @ map (\<lambda>key. ''Base key '' @ quoted key @ '' should start with --'')
               (filter badBaseKey (presentKeys d ''base''))
           @ map (\<lambda>key. ''Property key '' @ quoted key @ '' should start with --'')
               (filter badPropertyKey (presentKeys d ''properties''))"
    and "valid (validate d) = (errors (validate d) = [])"
  using assms
  by (simp_all add: validate_def Let_def sectionErrors_def presentKeys_def
      baseKeyErrors_filter propertyKeyErrors_filter)

lemma validate_not_object:
  assumes "\<not> truthy d \<or> \<not> isObjectType d"
  shows "validate d = \<lparr>valid = False, errors = [''Theme data must be an object'']\<rparr>"
  using assms by (auto simp add: validate_def)

text \<open>
  Claim C6. \<open>validate\<close> is total and returns a report whose \<open>valid\<close> field is true
  exactly when its error list is empty. A value that is absent or not an object yields
  the single error for that. For an object the error list is the concatenation of the
  error for two missing sections, one error per key of a present \<open>base\<close> section that
  is neither \<open>isDark\<close> nor begins with \<open>--\<close>, and one error per key of a present
  \<open>properties\<close> section that does not begin with \<open>--\<close>; a section is present when
  its value is truthy. So the report is valid exactly when none of these occurs. The
  document with the base key \<open>bad\<close> is invalid with an error that quotes \<open>bad\<close>, and the
  document with the base key \<open>--ok\<close> is valid.
\<close>

theorem validate_spec:
  "valid (validate d) = (errors (validate d) = [])
   \<and> (\<not> truthy d \<or> \<not> isObjectType d \<longrightarrow>
        validate d = \<lparr>valid = False, errors = [''Theme data must be an object'']\<rparr>)
   \<and> (truthy d \<and> isObjectType d \<longrightarrow>
        errors (validate d) =
           sectionErrors d
           @ map (\<lambda>key. ''Base key '' @ quoted key @ '' should start with --'')
               (filter badBaseKey (presentKeys d ''base''))
           @ map (\<lambda>key. ''Property key '' @ quoted key @ '' should start with --'')
               (filter badPropertyKey (presentKeys d ''properties'')))
   \<and> (valid (validate d) \<longleftrightarrow>
        truthy d \<and> isObjectType d
        \<and> (truthy (getProperty d ''base'') \<or> truthy (getProperty d ''properties''))
        \<and> (\<forall>key \<in> set (presentKeys d ''base''). key = ''isDark'' \<or> take 2 key = ''--'')
        \<and> (\<forall>key \<in> set (presentKeys d ''properties''). take 2 key = ''--''))
   \<and> validate (JObj [(''base'', JObj [(''bad'', JStr ''1,2,3'')])])
        = \<lparr>valid = False, errors = [''Base key '' @ quoted ''bad'' @ '' should start with --'']\<rparr>
   \<and> validate (JObj [(''base'', JObj [(''--ok'', JStr ''1,2,3'')])]) = \<lparr>valid = True, errors = []\<rparr>"
proof (intro conjI impI)
  show v: "valid (validate d) = (errors (validate d) = [])"
    by (cases "truthy d \<and> isObjectType d") (auto simp: validate_object(2) validate_not_object)
  show "validate d = \<lparr>valid = False, errors = [''Theme data must be an object'']\<rparr>"
    if "\<not> truthy d \<or> \<not> isObjectType d"
    using that by (rule validate_not_object)
  show "errors (validate d) =
           sectionErrors d
           @ map (\<lambda>key. ''Base key '' @ quoted key @ '' should start with --'')
               (filter badBaseKey (presentKeys d ''base''))
           @ map (\<lambda>key. ''Property key '' @ quoted key @ '' should start with --'')
               (filter badPropertyKey (presentKeys d ''properties''))"
    if "truthy d \<and> isObjectType d"
    using that by (simp add: validate_object(1))
  show "valid (validate d) \<longleftrightarrow>
        truthy d \<and> isObjectType d
        \<and> (truthy (getProperty d ''base'') \<or> truthy (getProperty d ''properties''))
        \<and> (\<forall>key \<in> set (presentKeys d ''base''). key = ''isDark'' \<or> take 2 key = ''--'')
        \<and> (\<forall>key \<in> set (presentKeys d ''properties''). take 2 key = ''--'')"
  proof (cases "truthy d \<and> isObjectType d")
    case True
    then show ?thesis
      unfolding v
      by (auto simp: validate_object(1) sectionErrors_def filter_empty_conv badBaseKey_def
          badPropertyKey_def)
  next
    case False
    then show ?thesis by (auto simp: validate_not_object)
  qed
  show "validate (JObj [(''base'', JObj [(''bad'', JStr ''1,2,3'')])])
        = \<lparr>valid = False, errors = [''Base key '' @ quoted ''bad'' @ '' should start with --'']\<rparr>"
    by (simp add: validate_def getProperty_def Let_def baseKeyErrors_def startsWith_def)
  show "validate (JObj [(''base'', JObj [(''--ok'', JStr ''1,2,3'')])]) = \<lparr>valid = True, errors = []\<rparr>"
    by (simp add: validate_def getProperty_def Let_def baseKeyErrors_def startsWith_def)
qed

theorem validate_spec_witness:
  "truthy (JObj [(''properties'', JObj [(''gap'', JStr ''4px''), (''--now-gap'', JStr ''8px'')])])
   \<and> isObjectType (JObj [(''properties'', JObj [(''gap'', JStr ''4px''), (''--now-gap'', JStr ''8px'')])])
   \<and> errors (validate (JObj [(''properties'', JObj [(''gap'', JStr ''4px''), (''--now-gap'', JStr ''8px'')])]))
       = [''Property key '' @ quoted ''gap'' @ '' should start with --'']
   \<and> \<not> truthy JNull
   \<and> validate JNull = \<lparr>valid = False, errors = [''Theme data must be an object'']\<rparr>"
  using validate_spec [of "JObj [(''properties'', JObj [(''gap'', JStr ''4px''), (''--now-gap'', JStr ''8px'')])]"]
    validate_spec [of JNull]
  by (simp add: sectionErrors_def presentKeys_def getProperty_def badPropertyKey_def)

subsection \<open>Decimal numerals\<close>

lemma digit_cases:
  assumes "d < (10::nat)"
  shows "d \<in> {0, 1, 2, 3, 4, 5, 6, 7, 8, 9}"
  using assms by auto

lemma digitChar_isDigit: "d < 10 \<Longrightarrow> digitChar d \<in> set ''0123456789''"
  using digit_cases [of d] by (auto simp: digitChar_def)

lemma digitValue_digitChar: "d < 10 \<Longrightarrow> digitValue (digitChar d) = Some d"
  using digit_cases [of d] by (auto simp: digitChar_def digitValue_def)

lemma natToDec_digits: "set (natToDec n) \<subseteq> set ''0123456789''"
proof (induction n rule: natToDec.induct)
  case (1 n)
  show ?case
  proof (cases "n < 10")
    case True
    then show ?thesis
      using digitChar_isDigit [of n] by (subst natToDec.simps) simp
  next
    case False
    have "digitChar (n mod 10) \<in> set ''0123456789''"
      by (rule digitChar_isDigit) simp
    with False "1.IH" show ?thesis
      by (subst natToDec.simps) simp
  qed
qed

lemma natToDec_nonempty: "natToDec n \<noteq> []"
  by (subst natToDec.simps) simp

lemma digitsValue_snoc:
  "digitsValue radix acc (xs @ [c]) =
     (case digitsValue radix acc xs of
        None \<Rightarrow> None
      | Some a \<Rightarrow>
          (case digitValue c of
             None \<Rightarrow> None
           | Some d \<Rightarrow> if d < radix then Some (a * radix + d) else None))"
  by (induction xs arbitrary: acc) (auto split: option.splits)

lemma digitsValue_natToDec: "digitsValue 10 0 (natToDec n) = Some n"
proof (induction n rule: natToDec.induct)
  case (1 n)
  show ?case
  proof (cases "n < 10")
    case True
    then show ?thesis
      by (subst natToDec.simps) (simp add: digitValue_digitChar)
  next
    case False
    have unfold: "natToDec n = natToDec (n div 10) @ [digitChar (n mod 10)]"
      using False by (subst natToDec.simps) simp
    have ih: "digitsValue 10 0 (natToDec (n div 10)) = Some (n div 10)"
      using False by (rule "1.IH")
    have dv: "digitValue (digitChar (n mod 10)) = Some (n mod 10)"
      by (rule digitValue_digitChar) simp
    show ?thesis
      unfolding unfold digitsValue_snoc ih dv by simp
  qed
qed

lemma natToDec_inj: "natToDec m = natToDec n \<Longrightarrow> m = n"
  by (metis digitsValue_natToDec option.inject)

lemma natToDec_no_dash: "CHR ''-'' \<notin> set (natToDec n)"
  using natToDec_digits [of n] by auto

lemma natToDec_no_comma: "CHR '','' \<notin> set (natToDec n)"
  using natToDec_digits [of n] by auto

subsection \<open>Scale keys\<close>

lemma dash_suffix_unique:
  assumes "xs @ CHR ''-'' # ds = ys @ CHR ''-'' # es"
    and "CHR ''-'' \<notin> set ds" and "CHR ''-'' \<notin> set es"
  shows "xs = ys \<and> ds = es"
proof -
  let ?P = "\<lambda>c. c \<noteq> CHR ''-''"
  have tw: "takeWhile ?P (rev zs @ CHR ''-'' # ws) = rev zs" if "CHR ''-'' \<notin> set zs" for zs ws
  proof -
    have "\<And>x. x \<in> set (rev zs) \<Longrightarrow> ?P x" using that by auto
    then have "takeWhile ?P (rev zs @ CHR ''-'' # ws) = rev zs @ takeWhile ?P (CHR ''-'' # ws)"
      by (rule takeWhile_append2)
    then show ?thesis by simp
  qed
  have "takeWhile ?P (rev (xs @ CHR ''-'' # ds)) = rev ds"
    using tw [OF assms(2)] by simp
  moreover have "takeWhile ?P (rev (ys @ CHR ''-'' # es)) = rev es"
    using tw [OF assms(3)] by simp
  ultimately have "rev ds = rev es"
    using assms(1) by simp
  then have "ds = es" by simp
  with assms(1) show ?thesis by simp
qed

lemma scaleKey_inj: "scaleKey c i = scaleKey c' j \<longleftrightarrow> c = c' \<and> i = j"
proof
  assume "scaleKey c i = scaleKey c' j"
  then have "c @ CHR ''-'' # natToDec i = c' @ CHR ''-'' # natToDec j"
    by (simp add: scaleKey_def)
  then have "c = c' \<and> natToDec i = natToDec j"
    by (rule dash_suffix_unique) (rule natToDec_no_dash)+
  then show "c = c' \<and> i = j"
    by (auto dest: natToDec_inj)
qed simp

lemma last_scaleKey: "last (scaleKey c i) \<in> set ''0123456789''"
proof -
  have "last (scaleKey c i) = last (natToDec i)"
    by (simp add: scaleKey_def natToDec_nonempty)
  moreover have "last (natToDec i) \<in> set (natToDec i)"
    by (rule last_in_set) (rule natToDec_nonempty)
  ultimately show ?thesis
    using natToDec_digits [of i] by auto
qed

lemma role_not_scaleKey:
  assumes "r \<in> set neutralColors \<union> set fourPointColors"
  shows "r \<noteq> scaleKey c i"
proof
  assume "r = scaleKey c i"
  then have "last r \<in> set ''0123456789''"
    using last_scaleKey [of c i] by simp
  with assms show False
    by (auto simp: neutralColors_def fourPointColors_def)
qed

lemma distinct_scaleKeys: "distinct (map (scaleKey c) [0..<n])"
  by (simp add: distinct_map inj_on_def scaleKey_inj)

subsection \<open>Scale expansion as a map override\<close>

lemma generateColorScale_len [simp]: "length (generateColorScale s n) = n"
  by (simp add: generateColorScale_def Let_def)

lemma storeScale_eq:
  "storeScale c i vs st =
     (fst st ++ map_of (zip (map (\<lambda>j. scaleKey c (i + j)) [0..<length vs]) (map JStr vs)),
      snd st + length vs)"
proof (induction vs arbitrary: i st)
  case Nil
  then show ?case by simp
next
  case (Cons v vs)
  let ?keys = "map (\<lambda>j. scaleKey c (Suc i + j)) [0..<length vs]"
  let ?rest = "map_of (zip ?keys (map JStr vs))"
  have "length ?keys = length (map JStr vs)"
    by simp
  then have "dom ?rest = set ?keys"
    by (rule dom_map_of_zip)
  then have fresh: "scaleKey c i \<notin> dom ?rest"
    by (auto simp: scaleKey_inj)
  have keys: "map (\<lambda>j. scaleKey c (i + j)) [0..<length (v # vs)] = scaleKey c i # ?keys"
    by (simp add: map_upt_Suc del: upt_Suc)
  have "storeScale c i (v # vs) st =
          ((fst st)(scaleKey c i \<mapsto> JStr v) ++ ?rest, Suc (snd st) + length vs)"
    by (simp add: Cons.IH fun_upd_def del: upt_Suc)
  also have "(fst st)(scaleKey c i \<mapsto> JStr v) ++ ?rest =
               (fst st ++ ?rest)(scaleKey c i \<mapsto> JStr v)"
    using fresh by (rule map_add_upd_left)
  also have "(fst st ++ ?rest)(scaleKey c i \<mapsto> JStr v) =
       fst st ++ map_of (zip (map (\<lambda>j. scaleKey c (i + j)) [0..<length (v # vs)])
         (map JStr (v # vs)))"
    unfolding keys by simp
  finally show ?case by simp
qed

lemma expandColor_eq:
  "expandColor n st c =
     (fst st ++ scaleOf n c (fst st c),
      snd st + (if expandable (fst st c) then n else 0))"
proof (cases "fst st c")
  case None
  then show ?thesis by (simp add: expandColor_def scaleOf_def)
next
  case (Some v)
  then show ?thesis
    by (cases v) (simp_all add: expandColor_def scaleOf_def storeScale_eq)
qed

lemma dom_scaleOf:
  "dom (scaleOf n c v) = (if expandable v then scaleKey c ` {0..<n} else {})"
proof (cases v)
  case None
  then show ?thesis by (simp add: scaleOf_def)
next
  case (Some w)
  then show ?thesis
    by (cases w) (simp_all add: scaleOf_def dom_map_of_zip)
qed

lemma scaleOf_not_expandable: "\<not> expandable v \<Longrightarrow> scaleOf n c v = Map.empty"
  using dom_scaleOf [of n c v] by simp

lemma foldl_map_add:
  "foldl (\<lambda>g c. g ++ F c) g0 cs = g0 ++ foldl (\<lambda>g c. g ++ F c) Map.empty cs"
proof (induction cs arbitrary: g0)
  case Nil
  then show ?case by simp
next
  case (Cons c cs)
  have "foldl (\<lambda>g c. g ++ F c) g0 (c # cs) = (g0 ++ F c) ++ foldl (\<lambda>g c. g ++ F c) Map.empty cs"
    using Cons.IH [of "g0 ++ F c"] by simp
  also have "\<dots> = g0 ++ (F c ++ foldl (\<lambda>g c. g ++ F c) Map.empty cs)"
    by simp
  also have "F c ++ foldl (\<lambda>g c. g ++ F c) Map.empty cs = foldl (\<lambda>g c. g ++ F c) Map.empty (c # cs)"
    using Cons.IH [of "F c"] by simp
  finally show ?case .
qed

lemma scalesOf_Cons: "scalesOf n b (c # cs) = scaleOf n c (b c) ++ scalesOf n b cs"
  unfolding scalesOf_def
  using foldl_map_add [of "\<lambda>c. scaleOf n c (b c)" "scaleOf n c (b c)" cs] by simp

lemma scalesOf_Nil [simp]: "scalesOf n b [] = Map.empty"
  by (simp add: scalesOf_def)

lemma dom_scalesOf:
  "dom (scalesOf n b cs) = (\<Union>c \<in> {c \<in> set cs. expandable (b c)}. scaleKey c ` {0..<n})"
  by (induction cs) (auto simp: scalesOf_Cons dom_scaleOf split: if_splits)

lemma scalesOf_cong:
  "(\<And>c. c \<in> set cs \<Longrightarrow> b c = b' c) \<Longrightarrow> scalesOf n b cs = scalesOf n b' cs"
  by (induction cs) (simp_all add: scalesOf_Cons)

lemma scaleKey_not_in_roles:
  "c \<in> set neutralColors \<union> set fourPointColors \<Longrightarrow> c \<notin> dom (scalesOf n b cs)"
  using role_not_scaleKey [of c] by (auto simp: dom_scalesOf)

lemma expandColors_eq:
  assumes "set cs \<subseteq> set neutralColors \<union> set fourPointColors"
  shows "foldl (expandColor n) st cs =
           (fst st ++ scalesOf n (fst st) cs,
            snd st + n * length (filter (\<lambda>c. expandable (fst st c)) cs))"
  using assms
proof (induction cs arbitrary: st)
  case Nil
  then show ?case by simp
next
  case (Cons c cs)
  let ?st = "expandColor n st c"
  have same: "fst ?st r = fst st r" if "r \<in> set cs" for r
  proof -
    have "r \<in> set neutralColors \<union> set fourPointColors"
      using that Cons.prems by auto
    then have "r \<notin> dom (scaleOf n c (fst st c))"
      using role_not_scaleKey [of r] by (auto simp: dom_scaleOf split: if_splits)
    then show ?thesis
      by (simp add: expandColor_eq map_add_dom_app_simps)
  qed
  have sc: "scalesOf n (fst ?st) cs = scalesOf n (fst st) cs"
    by (rule scalesOf_cong) (rule same)
  have fl: "filter (\<lambda>c. expandable (fst ?st c)) cs = filter (\<lambda>c. expandable (fst st c)) cs"
    by (rule filter_cong) (simp_all add: same)
  have "foldl (expandColor n) st (c # cs) = foldl (expandColor n) ?st cs"
    by simp
  also have "\<dots> = (fst ?st ++ scalesOf n (fst ?st) cs,
                   snd ?st + n * length (filter (\<lambda>c. expandable (fst ?st c)) cs))"
    using Cons.prems by (intro Cons.IH) simp
  also have "\<dots> = (fst st ++ scalesOf n (fst st) (c # cs),
                   snd st + n * length (filter (\<lambda>c. expandable (fst st c)) (c # cs)))"
    unfolding sc fl by (simp add: expandColor_eq scalesOf_Cons)
  finally show ?case .
qed

lemma generateScales_eq:
  assumes "base themeData = Some b"
  shows "generateScales themeData =
           (themeData\<lparr>base := Some (b ++ generated b)\<rparr>, Some (expandedCount b))"
proof -
  let ?st1 = "foldl (expandColor 22) (b, 0) neutralColors"
  have st1: "?st1 = (b ++ scalesOf 22 b neutralColors,
                     22 * length (filter (\<lambda>c. expandable (b c)) neutralColors))"
    using expandColors_eq [of neutralColors 22 "(b, 0)"] by simp
  have same: "fst ?st1 r = b r" if "r \<in> set fourPointColors" for r
    using that scaleKey_not_in_roles [of r 22 b neutralColors]
    by (simp add: st1 map_add_dom_app_simps)
  have sc: "scalesOf 4 (fst ?st1) fourPointColors = scalesOf 4 b fourPointColors"
    by (rule scalesOf_cong) (rule same)
  have fl: "filter (\<lambda>c. expandable (fst ?st1 c)) fourPointColors
              = filter (\<lambda>c. expandable (b c)) fourPointColors"
    by (rule filter_cong) (simp_all add: same)
  have st2: "foldl (expandColor 4) ?st1 fourPointColors =
               (b ++ generated b, expandedCount b)"
    using expandColors_eq [of fourPointColors 4 ?st1]
    unfolding sc fl by (simp add: st1 generated_def expandedCount_def)
  show ?thesis
    using assms by (simp add: generateScales_def Let_def st2)
qed

lemma dom_generated:
  "dom (generated b) =
     (\<Union>c \<in> {c \<in> set neutralColors. expandable (b c)}. scaleKey c ` {0..<22})
     \<union> (\<Union>c \<in> {c \<in> set fourPointColors. expandable (b c)}. scaleKey c ` {0..<4})"
  by (simp add: generated_def dom_scalesOf Un_commute)

lemma generated_cong:
  assumes "\<And>c. c \<in> set neutralColors \<union> set fourPointColors \<Longrightarrow> b c = b' c"
  shows "generated b = generated b'"
  using assms by (simp add: generated_def scalesOf_cong [of _ b b'])

lemma role_not_generated:
  "c \<in> set neutralColors \<union> set fourPointColors \<Longrightarrow> generated b c = None"
  using scaleKey_not_in_roles [of c 22 b neutralColors]
    scaleKey_not_in_roles [of c 4 b fourPointColors]
  by (simp add: generated_def domIff)


subsection \<open>The fold over the documents\<close>

lemma assign_eq: "assign target source = target ++ sectionOf source"
  by (simp add: assign_def sectionOf_def split: option.splits)





lemma merge_eq:
  "merge themes =
     \<lparr>base = Some (fst (mergeSections themes) ++ generated (fst (mergeSections themes))),
      properties = Some (snd (mergeSections themes))\<rparr>"
  by (simp add: merge_def Let_def generateScales_eq)


lemma mergeSections_pair:
  "mergeSections [A, B] =
     (sectionOf (base A) ++ sectionOf (base B),
      sectionOf (properties A) ++ sectionOf (properties B))"
  by (simp add: mergeSections_def assign_eq)

lemma mergeSections_triple:
  "mergeSections [A, B, C] =
     (sectionOf (base A) ++ sectionOf (base B) ++ sectionOf (base C),
      sectionOf (properties A) ++ sectionOf (properties B) ++ sectionOf (properties C))"
  by (simp add: mergeSections_def assign_eq)





subsection \<open>The loader\<close>



subsection \<open>Counting the generated entries\<close>

lemma distinct_fourPointColors: "distinct fourPointColors"
  by (simp add: fourPointColors_def)

lemma neutral_not_fourPoint: "''--now-color--neutral'' \<notin> set fourPointColors"
  by (simp add: fourPointColors_def)

lemma card_scaleKey_image: "card (scaleKey c ` {0..<n}) = n"
  by (simp add: card_image inj_on_def scaleKey_inj)

text \<open>
  Claim C7. When the base mapping defines exactly the neutral role and one 4-point role,
  both as color triple strings, \<open>generateScales\<close> reports 26 generated entries and
  adds exactly the 22 keys of the neutral role and the 4 keys of the other role, 26 new
  keys, leaving the two given entries as they were. A role that is absent, or whose
  value is not a string, is passed over: the state is returned unchanged.
\<close>

theorem generateScales_count:
  assumes "role \<in> set fourPointColors"
    and "dom b = {''--now-color--neutral'', role}"
    and "b ''--now-color--neutral'' = Some (JStr (colorTriple r1 g1 b1))"
    and "b role = Some (JStr (colorTriple r2 g2 b2))"
    and "r1 \<le> 255 \<and> g1 \<le> 255 \<and> b1 \<le> 255 \<and> r2 \<le> 255 \<and> g2 \<le> 255 \<and> b2 \<le> 255"
  shows "(\<exists>b'. generateScales \<lparr>base = Some b, properties = p\<rparr>
                 = (\<lparr>base = Some b', properties = p\<rparr>, Some 26)
            \<and> dom b' - dom b
                 = scaleKey ''--now-color--neutral'' ` {0..<22} \<union> scaleKey role ` {0..<4}
            \<and> card (dom b' - dom b) = 26
            \<and> (\<forall>k \<in> dom b. b' k = b k))
         \<and> (m c = None \<or> (\<exists>v. m c = Some v \<and> \<not> isString v)
              \<longrightarrow> expandColor n (m, cnt) c = (m, cnt))"
proof (rule conjI)
  let ?N = "''--now-color--neutral''"
  have nonempty: "colorTriple r g bl \<noteq> []" for r g bl
    by (simp add: colorTriple_def rgbString_def)
  have neq: "role \<noteq> ?N"
    using assms(1) neutral_not_fourPoint by auto
  have exp: "expandable (b c) \<longleftrightarrow> c = ?N \<or> c = role" for c
  proof
    assume "expandable (b c)"
    then have "b c \<noteq> None"
      by (cases "b c") simp_all
    then have "c \<in> dom b"
      by (simp only: domIff not_False_eq_True)
    then have "c \<in> {?N, role}"
      by (simp only: assms(2))
    then show "c = ?N \<or> c = role"
      by (simp only: insert_iff empty_iff simp_thms)
  next
    assume "c = ?N \<or> c = role"
    then show "expandable (b c)"
    proof
      assume "c = ?N"
      then have "b c = Some (JStr (colorTriple r1 g1 b1))"
        by (simp only: assms(3))
      then show ?thesis
        by (simp only: expandable.simps nonempty not_False_eq_True)
    next
      assume "c = role"
      then have "b c = Some (JStr (colorTriple r2 g2 b2))"
        by (simp only: assms(4))
      then show ?thesis
        by (simp only: expandable.simps nonempty not_False_eq_True)
    qed
  qed
  have n: "{c \<in> set neutralColors. expandable (b c)} = {?N}"
    by (auto simp: exp neutralColors_def)
  have f: "{c \<in> set fourPointColors. expandable (b c)} = {role}"
    using assms(1) neutral_not_fourPoint by (auto simp: exp)
  have dg: "dom (generated b) = scaleKey ?N ` {0..<22} \<union> scaleKey role ` {0..<4}"
    unfolding dom_generated n f by (simp del: atLeastLessThan_nat_numeral)
  have disj: "dom (generated b) \<inter> dom b = {}"
    using role_not_generated [of ?N b] role_not_generated [of role b] assms(1,2)
    by (auto simp: neutralColors_def)
  have cn: "length (filter (\<lambda>c. expandable (b c)) neutralColors) = 1"
    by (simp add: neutralColors_def exp)
  have "length (filter (\<lambda>c. expandable (b c)) fourPointColors)
          = card ({c. expandable (b c)} \<inter> set fourPointColors)"
    using distinct_fourPointColors by (rule distinct_length_filter)
  also have "{c. expandable (b c)} \<inter> set fourPointColors = {role}"
    using f by auto
  finally have cf: "length (filter (\<lambda>c. expandable (b c)) fourPointColors) = 1"
    by simp
  have cnt: "expandedCount b = 26"
    by (simp add: expandedCount_def cn cf)
  have keys_disj: "scaleKey ?N ` {0..<22} \<inter> scaleKey role ` {0..<4} = {}"
    using neq by (auto simp: scaleKey_inj simp del: atLeastLessThan_nat_numeral)
  have card: "card (scaleKey ?N ` {0..<22} \<union> scaleKey role ` {0..<4}) = 26"
  proof -
    have "card (scaleKey ?N ` {0..<22} \<union> scaleKey role ` {0..<4})
            = card (scaleKey ?N ` {0..<22}) + card (scaleKey role ` {0..<4})"
      using keys_disj by (intro card_Un_disjoint finite_imageI finite_atLeastLessThan)
    then show ?thesis
      unfolding card_scaleKey_image by simp
  qed
  have diff: "dom (b ++ generated b) - dom b = dom (generated b)"
    using disj by auto
  have keep: "(b ++ generated b) k = b k" if "k \<in> dom b" for k
  proof -
    have "k \<notin> dom (generated b)" using that disj by auto
    then show ?thesis by (simp add: map_add_dom_app_simps)
  qed
  have "generateScales \<lparr>base = Some b, properties = p\<rparr>
          = (\<lparr>base = Some (b ++ generated b), properties = p\<rparr>, Some 26)"
    by (simp add: generateScales_eq cnt)
  then show "\<exists>b'. generateScales \<lparr>base = Some b, properties = p\<rparr>
                 = (\<lparr>base = Some b', properties = p\<rparr>, Some 26)
            \<and> dom b' - dom b
                 = scaleKey ''--now-color--neutral'' ` {0..<22} \<union> scaleKey role ` {0..<4}
            \<and> card (dom b' - dom b) = 26
            \<and> (\<forall>k \<in> dom b. b' k = b k)"
  proof (intro exI [of _ "b ++ generated b"] conjI ballI)
    show "dom (b ++ generated b) - dom b
            = scaleKey ''--now-color--neutral'' ` {0..<22} \<union> scaleKey role ` {0..<4}"
      unfolding diff dg ..
    show "card (dom (b ++ generated b) - dom b) = 26"
      unfolding diff dg by (rule card)
    show "(b ++ generated b) k = b k" if "k \<in> dom b" for k
      using that by (rule keep)
  qed
  show "m c = None \<or> (\<exists>v. m c = Some v \<and> \<not> isString v)
          \<longrightarrow> expandColor n (m, cnt) c = (m, cnt)"
  proof
    assume "m c = None \<or> (\<exists>v. m c = Some v \<and> \<not> isString v)"
    then have "\<not> expandable (m c)"
    proof
      assume "m c = None" then show ?thesis by simp
    next
      assume "\<exists>v. m c = Some v \<and> \<not> isString v"
      then obtain v where "m c = Some v" "\<not> isString v" by blast
      then show ?thesis by (cases v) simp_all
    qed
    then show "expandColor n (m, cnt) c = (m, cnt)"
      by (simp add: expandColor_eq scaleOf_not_expandable)
  qed
qed

theorem generateScales_count_witness:
  "''--now-color--primary'' \<in> set fourPointColors
   \<and> dom [''--now-color--neutral'' \<mapsto> JStr (colorTriple 128 128 128),
           ''--now-color--primary'' \<mapsto> JStr (colorTriple 61 74 80)]
        = {''--now-color--neutral'', ''--now-color--primary''}
   \<and> (\<exists>b'. generateScales
          \<lparr>base = Some [''--now-color--neutral'' \<mapsto> JStr (colorTriple 128 128 128),
                        ''--now-color--primary'' \<mapsto> JStr (colorTriple 61 74 80)],
           properties = None\<rparr>
         = (\<lparr>base = Some b', properties = None\<rparr>, Some 26)
        \<and> card (dom b' - dom [''--now-color--neutral'' \<mapsto> JStr (colorTriple 128 128 128),
                                ''--now-color--primary'' \<mapsto> JStr (colorTriple 61 74 80)]) = 26)
   \<and> (\<exists>v. [''--now-color--link'' \<mapsto> JBool True] ''--now-color--link'' = Some v \<and> \<not> isString v)
   \<and> expandColor 4 ([''--now-color--link'' \<mapsto> JBool True], 0) ''--now-color--link''
        = ([''--now-color--link'' \<mapsto> JBool True], 0)"
proof -
  let ?b = "[''--now-color--neutral'' \<mapsto> JStr (colorTriple 128 128 128),
             ''--now-color--primary'' \<mapsto> JStr (colorTriple 61 74 80)]"
  have a1: "''--now-color--primary'' \<in> set fourPointColors"
    by (simp add: fourPointColors_def)
  have a2: "dom ?b = {''--now-color--neutral'', ''--now-color--primary''}"
    by auto
  have a3: "?b ''--now-color--neutral'' = Some (JStr (colorTriple 128 128 128))"
    by simp
  have a4: "?b ''--now-color--primary'' = Some (JStr (colorTriple 61 74 80))"
    by simp
  have a5: "(128::nat) \<le> 255 \<and> (128::nat) \<le> 255 \<and> (128::nat) \<le> 255
            \<and> (61::nat) \<le> 255 \<and> (74::nat) \<le> 255 \<and> (80::nat) \<le> 255"
    by simp
  have skip: "\<exists>v. [''--now-color--link'' \<mapsto> JBool True] ''--now-color--link'' = Some v
                \<and> \<not> isString v"
    by simp
  from generateScales_count [OF a1 a2 a3 a4 a5, of None, THEN conjunct1]
  obtain b' where "generateScales \<lparr>base = Some ?b, properties = None\<rparr>
         = (\<lparr>base = Some b', properties = None\<rparr>, Some 26)"
    and "card (dom b' - dom ?b) = 26"
    by blast
  then have ex: "\<exists>b'. generateScales \<lparr>base = Some ?b, properties = None\<rparr>
         = (\<lparr>base = Some b', properties = None\<rparr>, Some 26)
        \<and> card (dom b' - dom ?b) = 26"
    by blast
  have sk: "expandColor 4 ([''--now-color--link'' \<mapsto> JBool True], 0) ''--now-color--link''
        = ([''--now-color--link'' \<mapsto> JBool True], 0)"
    using generateScales_count [OF a1 a2 a3 a4 a5,
        of None "[''--now-color--link'' \<mapsto> JBool True]" "''--now-color--link''" 4 0] skip
    by blast
  show ?thesis
    using a1 a2 ex skip sk by (intro conjI)
qed

subsection \<open>Merging pairwise\<close>

lemma expandable_generated_mono:
  assumes "\<And>c. c \<in> set neutralColors \<union> set fourPointColors \<Longrightarrow>
             expandable (x c) \<Longrightarrow> expandable (y c)"
  shows "dom (generated x) \<subseteq> dom (generated y)"
  unfolding dom_generated using assms by blast

lemma merge_pairwise_base:
  assumes "\<And>c. c \<in> set neutralColors \<union> set fourPointColors \<Longrightarrow>
             expandable (x c) \<Longrightarrow> expandable ((x ++ cb) c)"
  shows "((x ++ generated x) ++ cb) ++ generated ((x ++ generated x) ++ cb)
           = (x ++ cb) ++ generated (x ++ cb)"
proof -
  let ?y = "x ++ cb" and ?z = "(x ++ generated x) ++ cb"
  have roles: "?z c = ?y c" if "c \<in> set neutralColors \<union> set fourPointColors" for c
    using role_not_generated [OF that, of x] by (simp add: map_add_def split: option.splits)
  have g: "generated ?z = generated ?y"
    by (rule generated_cong) (rule roles)
  have sub: "dom (generated x) \<subseteq> dom (generated ?y)"
    by (rule expandable_generated_mono) (rule assms)
  have "(?z ++ generated ?y) k = (?y ++ generated ?y) k" for k
  proof (cases "k \<in> dom (generated ?y)")
    case True
    then show ?thesis by (simp add: map_add_dom_app_simps)
  next
    case False
    then have "k \<notin> dom (generated x)" using sub by blast
    then have "generated x k = None" by (simp add: domIff)
    then have "?z k = ?y k"
      by (simp add: map_add_def split: option.splits)
    with False show ?thesis by (simp add: map_add_dom_app_simps)
  qed
  then show ?thesis
    unfolding g by (intro ext)
qed

text \<open>
  Claim C5, amended. Merging three documents in one call gives the same document as
  merging the first two and then merging the result with the third, provided every scale
  role that has a non-empty string value after the first two documents still has one
  after the third. (Without the proviso the entries generated by the first merge remain
  beside a role that the third document turned into a value that is not expanded.)
\<close>

theorem merge_pairwise:
  assumes "\<forall>c \<in> set neutralColors \<union> set fourPointColors.
             expandable (fst (mergeSections [A, B]) c) \<longrightarrow>
             expandable (fst (mergeSections [A, B, C]) c)"
  shows "merge [A, B, C] = merge [merge [A, B], C]"
proof -
  let ?x = "sectionOf (base A) ++ sectionOf (base B)"
  let ?cb = "sectionOf (base C)"
  have cond: "expandable ((?x ++ ?cb) c)"
    if "c \<in> set neutralColors \<union> set fourPointColors" "expandable (?x c)" for c
    using assms that by (simp add: mergeSections_pair mergeSections_triple)
  have base: "((?x ++ generated ?x) ++ ?cb) ++ generated ((?x ++ generated ?x) ++ ?cb)
                = (?x ++ ?cb) ++ generated (?x ++ ?cb)"
    by (rule merge_pairwise_base) (rule cond)
  have inner: "mergeSections [merge [A, B], C] =
                 ((?x ++ generated ?x) ++ ?cb,
                  (sectionOf (properties A) ++ sectionOf (properties B)) ++ sectionOf (properties C))"
    by (simp add: mergeSections_pair merge_eq [of "[A, B]"] sectionOf_def [of "Some _"])
  show ?thesis
    unfolding merge_eq [of "[merge [A, B], C]"] inner
    by (simp add: merge_eq [of "[A, B, C]"] mergeSections_triple base)
qed

theorem merge_pairwise_witness:
  "merge [\<lparr>base = Some [''--now-color--primary'' \<mapsto> JStr ''61,74,80''], properties = None\<rparr>,
          \<lparr>base = None, properties = Some [''--now-gap'' \<mapsto> JStr ''4px'']\<rparr>,
          \<lparr>base = Some [''--now-color--primary'' \<mapsto> JStr ''10,20,30''], properties = None\<rparr>]
   = merge [merge [\<lparr>base = Some [''--now-color--primary'' \<mapsto> JStr ''61,74,80''],
                    properties = None\<rparr>,
                   \<lparr>base = None, properties = Some [''--now-gap'' \<mapsto> JStr ''4px'']\<rparr>],
            \<lparr>base = Some [''--now-color--primary'' \<mapsto> JStr ''10,20,30''], properties = None\<rparr>]"
proof -
  let ?A = "\<lparr>base = Some [''--now-color--primary'' \<mapsto> JStr ''61,74,80''], properties = None\<rparr>"
  let ?B = "\<lparr>base = None, properties = Some [''--now-gap'' \<mapsto> JStr ''4px'']\<rparr>"
  let ?C = "\<lparr>base = Some [''--now-color--primary'' \<mapsto> JStr ''10,20,30''], properties = None\<rparr>"
  have "\<forall>c \<in> set neutralColors \<union> set fourPointColors.
             expandable (fst (mergeSections [?A, ?B]) c) \<longrightarrow>
             expandable (fst (mergeSections [?A, ?B, ?C]) c)"
    by (simp add: mergeSections_pair mergeSections_triple sectionOf_def map_add_def)
  then show ?thesis
    by (rule merge_pairwise)
qed

theorem merge_pairwise_counterexample:
  "merge [\<lparr>base = Some [''--now-color--primary'' \<mapsto> JStr ''61,74,80''], properties = None\<rparr>,
          \<lparr>base = None, properties = None\<rparr>,
          \<lparr>base = Some [''--now-color--primary'' \<mapsto> JBool True], properties = None\<rparr>]
   \<noteq> merge [merge [\<lparr>base = Some [''--now-color--primary'' \<mapsto> JStr ''61,74,80''],
                    properties = None\<rparr>,
                   \<lparr>base = None, properties = None\<rparr>],
            \<lparr>base = Some [''--now-color--primary'' \<mapsto> JBool True], properties = None\<rparr>]"
proof -
  let ?P = "''--now-color--primary''"
  let ?A = "\<lparr>base = Some [?P \<mapsto> JStr ''61,74,80''], properties = None\<rparr>"
  let ?B = "\<lparr>base = None, properties = None\<rparr> :: theme"
  let ?C = "\<lparr>base = Some [?P \<mapsto> JBool True], properties = None\<rparr>"
  let ?x = "[?P \<mapsto> JStr ''61,74,80'']"
  let ?y = "[?P \<mapsto> JBool True]"
  let ?k = "scaleKey ?P 0"
  have role: "?P \<in> set neutralColors \<union> set fourPointColors"
    by (simp add: fourPointColors_def)
  have k: "?k \<noteq> ?P"
    using role_not_scaleKey [OF role, of ?P 0] by simp
  have "\<not> expandable (?y c)" for c
    by simp
  then have "dom (generated ?y) = {}"
    unfolding dom_generated by blast
  then have gy: "generated ?y = Map.empty"
    by simp
  have one: "mergeSections [?A, ?B, ?C] = (?y, Map.empty)"
    by (simp add: mergeSections_triple sectionOf_def)
  have lhs: "sectionOf (base (merge [?A, ?B, ?C])) ?k = None"
    using k by (simp add: merge_eq one gy sectionOf_def)
  have "?P \<in> set fourPointColors"
    by (simp add: fourPointColors_def)
  moreover have "expandable (?x ?P)"
    by simp
  ultimately have "?k \<in> dom (generated ?x)"
    unfolding dom_generated by (intro UnI2 UN_I [of ?P] imageI) simp_all
  then obtain v where v: "generated ?x ?k = Some v"
    by blast
  have two: "mergeSections [?A, ?B] = (?x, Map.empty)"
    by (simp add: mergeSections_pair sectionOf_def)
  have inner: "merge [?A, ?B] = \<lparr>base = Some (?x ++ generated ?x), properties = Some Map.empty\<rparr>"
    by (simp add: merge_eq two)
  have three: "fst (mergeSections [merge [?A, ?B], ?C]) = (?x ++ generated ?x) ++ ?y"
    unfolding inner by (simp add: mergeSections_pair sectionOf_def)
  have "?k \<notin> dom ?y"
    using k by simp
  then have "((?x ++ generated ?x) ++ ?y) ?k = (?x ++ generated ?x) ?k"
    by (rule map_add_dom_app_simps(3))
  also have "\<dots> = Some v"
    using v by (rule map_add_find_right)
  finally have "((?x ++ generated ?x) ++ ?y) ?k \<noteq> None"
    by simp
  then have "(((?x ++ generated ?x) ++ ?y) ++ generated ((?x ++ generated ?x) ++ ?y)) ?k \<noteq> None"
    by (simp only: map_add_None simp_thms not_False_eq_True)
  then have rhs: "sectionOf (base (merge [merge [?A, ?B], ?C])) ?k \<noteq> None"
    by (simp add: merge_eq [of "[merge [?A, ?B], ?C]"] three sectionOf_def)
  show ?thesis
    using lhs rhs by metis
qed

end
